theory Spec2Isabelle
  imports Main
begin

section \<open>Paths: the part of pathlib and os.path the program uses\<close>

text \<open>
  The program runs on a POSIX system; its paths are \<^verbatim>\<open>PurePosixPath\<close> values. A path is
  a root (\<^verbatim>\<open>''\<close>, \<^verbatim>\<open>/\<close> or \<^verbatim>\<open>//\<close>) and a list of components.
\<close>

datatype path = Path (root: string) (parts: "string list")

text \<open>\<^verbatim>\<open>str.split('/')\<close>: the segments between separators; never the empty list.\<close>

fun split_sep :: "string \<Rightarrow> string list" where
  "split_sep [] = [[]]"
| "split_sep (c # cs) =
     (if c = CHR ''/'' then [] # split_sep cs
      else (case split_sep cs of [] \<Rightarrow> [[c]] | x # xs \<Rightarrow> (c # x) # xs))"

text \<open>\<^verbatim>\<open>'/'.join(xs)\<close>.\<close>

fun join_sep :: "string list \<Rightarrow> string" where
  "join_sep [] = []"
| "join_sep [x] = x"
| "join_sep (x # y # ys) = x @ ''/'' @ join_sep (y # ys)"

text \<open>
  \<^verbatim>\<open>_PosixFlavour.splitroot\<close>: exactly two leading slashes are kept as the root
  \<^verbatim>\<open>//\<close>, any other number of them is the root \<^verbatim>\<open>/\<close>.
\<close>

definition splitroot :: "string \<Rightarrow> string \<times> string" where
  "splitroot part =
     (if part \<noteq> [] \<and> hd part = CHR ''/'' then
        (let stripped_part = dropWhile (\<lambda>c. c = CHR ''/'') part in
         if length part - length stripped_part = 2 then (''//'', stripped_part)
         else (''/'', stripped_part))
      else ([], part))"

text \<open>\<^verbatim>\<open>pathlib.Path(s)\<close>: empty components and \<^verbatim>\<open>.\<close> components are dropped.\<close>

definition parse_path :: "string \<Rightarrow> path" where
  "parse_path s =
     (case splitroot s of
        (r, rel) \<Rightarrow> Path r (filter (\<lambda>x. x \<noteq> [] \<and> x \<noteq> ''.'') (split_sep rel)))"

text \<open>\<^verbatim>\<open>p / key\<close>: a key with a root replaces \<open>p\<close>; otherwise its components are appended.\<close>

definition truediv :: "path \<Rightarrow> string \<Rightarrow> path" where
  "truediv p key =
     (let q = parse_path key in
      if root q \<noteq> [] then q else Path (root p) (parts p @ parts q))"

text \<open>\<^verbatim>\<open>str(p)\<close>: the root followed by the joined components, \<^verbatim>\<open>.\<close> for the empty path.\<close>

definition str_path :: "path \<Rightarrow> string" where
  "str_path p =
     (let s = root p @ join_sep (parts p) in if s = [] then ''.'' else s)"

text \<open>\<^verbatim>\<open>p.name\<close>: the last component, empty when there is none.\<close>

definition name :: "path \<Rightarrow> string" where
  "name p = (if parts p = [] then [] else last (parts p))"

text \<open>\<^verbatim>\<open>s.rfind('.')\<close>: the index of the last dot, \<open>-1\<close> when there is none.\<close>

definition rfind_dot :: "string \<Rightarrow> int" where
  "rfind_dot s =
     (if CHR ''.'' \<in> set s
      then int (length s) - 1 - int (length (takeWhile (\<lambda>c. c \<noteq> CHR ''.'') (rev s)))
      else - 1)"

text \<open>
  \<^verbatim>\<open>p.suffix\<close> and \<^verbatim>\<open>p.stem\<close>: the name is cut at its last dot, unless that dot is
  the first or the last character of the name.
\<close>

definition suffix :: "path \<Rightarrow> string" where
  "suffix p =
     (let i = rfind_dot (name p) in
      if 0 < i \<and> i < int (length (name p)) - 1 then drop (nat i) (name p) else [])"

definition stem :: "path \<Rightarrow> string" where
  "stem p =
     (let i = rfind_dot (name p) in
      if 0 < i \<and> i < int (length (name p)) - 1 then take (nat i) (name p) else name p)"

text \<open>
  \<^verbatim>\<open>p._from_parsed_parts(drv, root, parts[:-1] + [n])\<close>: the path beside \<open>p\<close>, in the
  same directory, whose last component is \<open>n\<close>.
\<close>

definition sibling :: "path \<Rightarrow> string \<Rightarrow> path" where
  "sibling p n = Path (root p) (butlast (parts p) @ [n])"

text \<open>\<^verbatim>\<open>posixpath.join(a, b)\<close> for two arguments.\<close>

definition os_path_join :: "string \<Rightarrow> string \<Rightarrow> string" where
  "os_path_join a b =
     (if b \<noteq> [] \<and> hd b = CHR ''/'' then b
      else if a = [] \<or> last a = CHR ''/'' then a @ b
      else a @ ''/'' @ b)"


section \<open>Exceptions, the file store and the outside world\<close>

text \<open>
  The exceptions the program meets: FastAPI's \<^verbatim>\<open>HTTPException(status_code, detail)\<close>, and
  any other Python exception, kept as its message \<^verbatim>\<open>str(e)\<close>.
\<close>

datatype exn = HTTPException int string | Exception string

text \<open>
  The file store maps a path string to the bytes of the regular file there. Directories
  are not entries of the store, and two strings are the same file only when they are
  equal.
\<close>

type_synonym files = "string \<Rightarrow> string option"

text \<open>
  The log records each entry into one of the three stage functions. It is the only
  addition to the program's state; no function reads it.
\<close>

datatype call =
    Invoked_download_audio string string
  | Invoked_separate_audio string
  | Invoked_keep_only_sound string

record state =
  files :: files
  calls :: "call list"

text \<open>The options handed to the downloader (lines 21 to 32).\<close>

record postprocessor =
  key :: string
  preferredcodec :: string
  preferredquality :: string

record ydl_opts =
  format :: string
  outtmpl :: string
  quiet :: bool
  noplaylist :: bool
  ignoreerrors :: bool
  postprocessors :: "postprocessor list"

text \<open>
  What lies outside the repository is a parameter of the model:
  \<^item> \<open>BASE_DIR\<close>, the directory of the script;
  \<^item> \<open>py_repr\<close>, Python's \<^verbatim>\<open>repr\<close> on strings, used in messages of the library;
  \<^item> \<open>ydl_download\<close>, \<^verbatim>\<open>YoutubeDL(opts).download(urls)\<close>: the files it leaves, and
    either the message of the exception it raised or its return code;
  \<^item> \<open>separate_to_file\<close>, \<^verbatim>\<open>Separator(config).separate_to_file(audio, destination)\<close>:
    the files it leaves, and the message of the exception it raised, if any;
  \<^item> \<open>subprocess_run\<close>, \<^verbatim>\<open>subprocess.run(cmd)\<close>: the files the process leaves, and
    either the message of the exception raised when the process could not be started,
    or its exit status.
\<close>

record env =
  BASE_DIR :: path
  py_repr :: "string \<Rightarrow> string"
  ydl_download :: "ydl_opts \<Rightarrow> string list \<Rightarrow> files \<Rightarrow> files \<times> (string + int)"
  separate_to_file :: "string \<Rightarrow> string \<Rightarrow> string \<Rightarrow> files \<Rightarrow> files \<times> string option"
  subprocess_run :: "string list \<Rightarrow> files \<Rightarrow> files \<times> (string + int)"

definition DOWNLOAD_DIR :: "env \<Rightarrow> path" where
  "DOWNLOAD_DIR env = truediv (BASE_DIR env) ''Downloads''"

definition OUTPUT_DIR :: "env \<Rightarrow> path" where
  "OUTPUT_DIR env = truediv (BASE_DIR env) ''output''"

text \<open>\<^verbatim>\<open>repr(p)\<close> of a path.\<close>

definition repr_path :: "env \<Rightarrow> path \<Rightarrow> string" where
  "repr_path env p = ''PosixPath('' @ py_repr env (str_path p) @ '')''"

text \<open>
  \<^verbatim>\<open>p.with_suffix('')\<close>, the one suffix the program passes: a path with no name raises
  ValueError; otherwise the suffix of the name is removed.
\<close>

definition with_suffix_empty :: "env \<Rightarrow> path \<Rightarrow> exn + path" where
  "with_suffix_empty env p =
     (if name p = [] then Inl (Exception (repr_path env p @ '' has an empty name''))
      else Inr (sibling p
             (if suffix p = [] then name p
              else take (length (name p) - length (suffix p)) (name p))))"

text \<open>
  \<^verbatim>\<open>p.with_name(n)\<close>: a path with no name raises ValueError, and so does a new name
  that is not exactly one component.
\<close>

definition with_name :: "env \<Rightarrow> path \<Rightarrow> string \<Rightarrow> exn + path" where
  "with_name env p n =
     (if name p = [] then Inl (Exception (repr_path env p @ '' has an empty name''))
      else if n = [] \<or> last n = CHR ''/'' \<or> root (parse_path n) \<noteq> []
                \<or> length (parts (parse_path n)) \<noteq> 1
           then Inl (Exception (''Invalid name '' @ py_repr env n))
      else Inr (sibling p n))"

text \<open>
  \<^verbatim>\<open>p.mkdir(exist_ok=True)\<close>: FileExistsError when a regular file is at the path.
  The result is the exception raised, if any; the store of regular files is unchanged.
\<close>

definition mkdir_exist_ok :: "env \<Rightarrow> path \<Rightarrow> files \<Rightarrow> exn option" where
  "mkdir_exist_ok env p fs =
     (if fs (str_path p) \<noteq> None
      then Some (Exception (''[Errno 17] File exists: '' @ py_repr env (str_path p)))
      else None)"

text \<open>\<^verbatim>\<open>os.path.exists(v)\<close>.\<close>

definition os_path_exists :: "files \<Rightarrow> string \<Rightarrow> bool" where
  "os_path_exists fs v = (fs v \<noteq> None)"

text \<open>
  \<^verbatim>\<open>os.replace(src, dst)\<close>: FileNotFoundError when there is no file at \<open>src\<close>; otherwise
  the file is at \<open>dst\<close> afterwards, in place of what was there, and no longer at \<open>src\<close>.
\<close>

definition os_replace :: "env \<Rightarrow> string \<Rightarrow> string \<Rightarrow> files \<Rightarrow> exn + files" where
  "os_replace env src dst fs =
     (case fs src of
        None \<Rightarrow> Inl (Exception (''[Errno 2] No such file or directory: ''
                                  @ py_repr env src @ '' -> '' @ py_repr env dst))
      | Some b \<Rightarrow> Inr ((fs(src := None))(dst \<mapsto> b)))"

section \<open>The three stages\<close>

text \<open>Step 1, \<^verbatim>\<open>download_audio\<close> (lines 19 to 40).\<close>

definition download_opts :: "string \<Rightarrow> ydl_opts" where
  "download_opts tmpl =
     \<lparr>format = ''bestaudio[ext=m4a]/bestaudio/best'',
      outtmpl = tmpl,
      quiet = True,
      noplaylist = True,
      ignoreerrors = True,
      postprocessors =
        [\<lparr>key = ''FFmpegExtractAudio'', preferredcodec = ''mp3'',
          preferredquality = ''192''\<rparr>]\<rparr>"

definition download_audio ::
  "env \<Rightarrow> string \<Rightarrow> string \<Rightarrow> state \<Rightarrow> (exn + string) \<times> state" where
  "download_audio env youtube_url file_name st0 =
     (let st = st0\<lparr>calls := calls st0 @ [Invoked_download_audio youtube_url file_name]\<rparr>;
          output_path = truediv (DOWNLOAD_DIR env) file_name
      in case with_suffix_empty env output_path of
           Inl e \<Rightarrow> (Inl e, st)
         | Inr tmpl \<Rightarrow>
             (case ydl_download env (download_opts (str_path tmpl)) [youtube_url] (files st) of
                (fs, Inl e) \<Rightarrow>
                  (Inl (HTTPException 400 (''Download failed: '' @ e)), st\<lparr>files := fs\<rparr>)
              | (fs, Inr rc) \<Rightarrow>
                  (Inr (str_path output_path @ ''.mp3''), st\<lparr>files := fs\<rparr>)))"

text \<open>Step 2, \<^verbatim>\<open>separate_audio\<close> (lines 43 to 52).\<close>

definition separate_audio ::
  "env \<Rightarrow> string \<Rightarrow> state \<Rightarrow> (exn + string) \<times> state" where
  "separate_audio env file_path st0 =
     (let st = st0\<lparr>calls := calls st0 @ [Invoked_separate_audio file_path]\<rparr>;
          song_name = stem (parse_path file_path);
          song_output = truediv (OUTPUT_DIR env) song_name
      in case mkdir_exist_ok env song_output (files st) of
           Some e \<Rightarrow> (Inl e, st)
         | None \<Rightarrow>
             (case separate_to_file env ''spleeter:2stems'' file_path
                     (str_path (OUTPUT_DIR env)) (files st) of
                (fs, Some e) \<Rightarrow>
                  (Inl (HTTPException 500 (''Separation failed: '' @ e)), st\<lparr>files := fs\<rparr>)
              | (fs, None) \<Rightarrow> (Inr (str_path song_output), st\<lparr>files := fs\<rparr>)))"

text \<open>Step 3, \<^verbatim>\<open>keep_only_sound\<close> (lines 55 to 63).\<close>

definition silence_filter :: string where
  "silence_filter =
     ''silenceremove=start_periods=1:start_threshold=-40dB:start_silence=0.1:stop_periods=-1:stop_threshold=-40dB:stop_silence=0.1''"

definition ffmpeg_cmd :: "string \<Rightarrow> string \<Rightarrow> string list" where
  "ffmpeg_cmd input_file output_file =
     [''ffmpeg'', ''-y'', ''-i'', input_file, ''-af'', silence_filter, output_file]"

definition keep_only_sound ::
  "env \<Rightarrow> string \<Rightarrow> state \<Rightarrow> (exn + string) \<times> state" where
  "keep_only_sound env input_file st0 =
     (let st = st0\<lparr>calls := calls st0 @ [Invoked_keep_only_sound input_file]\<rparr>
      in case with_name env (parse_path input_file)
                (stem (parse_path input_file) @ ''_sound.wav'') of
           Inl e \<Rightarrow> (Inl e, st)
         | Inr output_file \<Rightarrow>
             (case subprocess_run env (ffmpeg_cmd input_file (str_path output_file))
                     (files st) of
                (fs, Inl e) \<Rightarrow> (Inl (Exception e), st\<lparr>files := fs\<rparr>)
              | (fs, Inr rc) \<Rightarrow> (Inr (str_path output_file), st\<lparr>files := fs\<rparr>)))"

section \<open>The endpoints\<close>

text \<open>What a path operation hands back to the framework.\<close>

datatype handler_result =
    ReturnDict "(string \<times> string) list"
  | JSONResponse int "(string \<times> string) list"
  | FileResponse string string

text \<open>The body of the \<^verbatim>\<open>try\<close> of \<^verbatim>\<open>process_audio\<close> (lines 133 to 139).\<close>

definition process_body ::
  "env \<Rightarrow> string \<Rightarrow> string \<Rightarrow> string \<Rightarrow> state \<Rightarrow> (exn + handler_result) \<times> state" where
  "process_body env youtube_url file_name file_type st =
     (case download_audio env youtube_url file_name st of
        (Inl e, st1) \<Rightarrow> (Inl e, st1)
      | (Inr file_path, st1) \<Rightarrow>
     (case separate_audio env file_path st1 of
        (Inl e, st2) \<Rightarrow> (Inl e, st2)
      | (Inr out_dir, st2) \<Rightarrow>
     (let selected_file =
            (if file_type = ''vocals'' then os_path_join out_dir ''vocals.wav''
             else os_path_join out_dir ''accompaniment.wav'')
      in case keep_only_sound env selected_file st2 of
        (Inl e, st3) \<Rightarrow> (Inl e, st3)
      | (Inr sound_file, st3) \<Rightarrow>
     (let final_path =
            truediv (OUTPUT_DIR env) (stem (parse_path file_name) @ ''_sound.wav'')
      in case os_replace env sound_file (str_path final_path) (files st3) of
        Inl e \<Rightarrow> (Inl e, st3)
      | Inr fs \<Rightarrow>
          (Inr (ReturnDict [(''file'', ''/file?v='' @ str_path final_path)]),
           st3\<lparr>files := fs\<rparr>)))))"

text \<open>\<^verbatim>\<open>process_audio\<close> (lines 125 to 143).\<close>

definition process_audio ::
  "env \<Rightarrow> string \<Rightarrow> string \<Rightarrow> string \<Rightarrow> state \<Rightarrow> handler_result \<times> state" where
  "process_audio env youtube_url file_name file_type st =
     (if file_type \<notin> set [''vocals'', ''music'']
      then (JSONResponse 400
              [(''error'', ''file_type must be 'vocals' or 'music'' @ [CHR 0x27])], st)
      else (case process_body env youtube_url file_name file_type st of
              (Inr r, st') \<Rightarrow> (r, st')
            | (Inl (HTTPException status_code detail), st') \<Rightarrow>
                (JSONResponse status_code [(''error'', detail)], st')
            | (Inl (Exception msg), st') \<Rightarrow>
                (JSONResponse 500 [(''error'', msg)], st')))"

text \<open>\<^verbatim>\<open>get_file\<close> (lines 147 to 150).\<close>

definition get_file :: "string \<Rightarrow> state \<Rightarrow> exn + handler_result" where
  "get_file v st =
     (if \<not> os_path_exists (files st) v
      then Inl (HTTPException 404 ''File not found'')
      else Inr (FileResponse v ''audio/wav''))"

text \<open>
  What the framework sends for the outcome of a path operation: a returned dict is a
  200 JSON body; a \<^verbatim>\<open>JSONResponse\<close> is sent as it is; a \<^verbatim>\<open>FileResponse\<close> streams the
  file at its path with its media type; a raised \<^verbatim>\<open>HTTPException\<close> is answered by
  FastAPI's handler with its status and the JSON body \<^verbatim>\<open>{"detail": detail}\<close>; any other
  exception is a 500 with a plain text body.
\<close>

datatype body = Json "(string \<times> string) list" | FileBytes string string | PlainText string

definition http_response :: "files \<Rightarrow> exn + handler_result \<Rightarrow> int \<times> body" where
  "http_response fs outcome =
     (case outcome of
        Inr (ReturnDict d) \<Rightarrow> (200, Json d)
      | Inr (JSONResponse status_code d) \<Rightarrow> (status_code, Json d)
      | Inr (FileResponse p media_type) \<Rightarrow>
          (case fs p of
             Some b \<Rightarrow> (200, FileBytes media_type b)
           | None \<Rightarrow> (500, PlainText ''Internal Server Error''))
      | Inl (HTTPException status_code detail) \<Rightarrow> (status_code, Json [(''detail'', detail)])
      | Inl (Exception msg) \<Rightarrow> (500, PlainText ''Internal Server Error''))"


text \<open>The message an exception carries: \<^verbatim>\<open>e.detail\<close>, or \<^verbatim>\<open>str(e)\<close>.\<close>

definition detail_of :: "exn \<Rightarrow> string" where
  "detail_of e = (case e of HTTPException status_code detail \<Rightarrow> detail | Exception msg \<Rightarrow> msg)"


text \<open>A plain name: one path component, neither empty nor \<^verbatim>\<open>.\<close>.\<close>

definition plain_name :: "string \<Rightarrow> bool" where
  "plain_name n = (n \<noteq> [] \<and> CHR ''/'' \<notin> set n \<and> n \<noteq> ''.'')"

section \<open>A sample world\<close>

text \<open>
  A world in which every tool works: the downloader writes the mp3 next to its output
  template, the separator writes the two stems under the destination directory, and the
  filter writes its last argument. Strings are printed between single quotes.
\<close>

definition quote_repr :: "string \<Rightarrow> string" where
  "quote_repr s = [CHR 0x27] @ s @ [CHR 0x27]"

definition demo_download :: "ydl_opts \<Rightarrow> string list \<Rightarrow> files \<Rightarrow> files \<times> (string + int)" where
  "demo_download opts urls fs = (fs(outtmpl opts @ ''.mp3'' \<mapsto> ''mp3 audio''), Inr 0)"

definition demo_separate :: "string \<Rightarrow> string \<Rightarrow> string \<Rightarrow> files \<Rightarrow> files \<times> string option" where
  "demo_separate config audio destination fs =
     (let d = destination @ ''/'' @ stem (parse_path audio)
      in (fs(d @ ''/vocals.wav'' \<mapsto> ''vocal stem'',
             d @ ''/accompaniment.wav'' \<mapsto> ''accompaniment stem''), None))"

definition demo_run :: "string list \<Rightarrow> files \<Rightarrow> files \<times> (string + int)" where
  "demo_run cmd fs = (fs(last cmd \<mapsto> ''trimmed audio''), Inr 0)"


definition silent_download ::
  "ydl_opts \<Rightarrow> string list \<Rightarrow> files \<Rightarrow> files \<times> (string + int)" where
  "silent_download opts urls fs = (fs, Inr 1)"

definition corrupt_separate ::
  "string \<Rightarrow> string \<Rightarrow> string \<Rightarrow> files \<Rightarrow> files \<times> string option" where
  "corrupt_separate config audio destination fs = (fs, Some ''ffprobe error: invalid data'')"

definition failing_run :: "string list \<Rightarrow> files \<Rightarrow> files \<times> (string + int)" where
  "failing_run cmd fs = (fs, Inr 1)"

definition demo_env :: env where
  "demo_env =
     \<lparr>BASE_DIR = Path ''/'' [''srv'', ''app''],
      py_repr = quote_repr,
      ydl_download = demo_download,
      separate_to_file = demo_separate,
      subprocess_run = demo_run\<rparr>"

definition empty_state :: state where
  "empty_state = \<lparr>files = (\<lambda>p. None), calls = []\<rparr>"





section \<open>Facts about paths\<close>


lemma split_sep_no_sep: "x \<in> set (split_sep s) \<Longrightarrow> CHR ''/'' \<notin> set x"
  by (induction s arbitrary: x) (auto split: list.splits if_splits)

lemma split_sep_plain: "CHR ''/'' \<notin> set s \<Longrightarrow> split_sep s = [s]"
  by (induction s) (auto split: list.splits)

lemma parts_parse_no_sep: "x \<in> set (parts (parse_path s)) \<Longrightarrow> CHR ''/'' \<notin> set x"
  by (auto simp: parse_path_def split: prod.splits dest: split_sep_no_sep)

lemma name_parse_no_sep: "CHR ''/'' \<notin> set (name (parse_path s))"
  using parts_parse_no_sep [of "last (parts (parse_path s))" s]
  by (auto simp: name_def)

lemma stem_subset: "set (stem p) \<subseteq> set (name p)"
  by (auto simp: stem_def Let_def dest: in_set_takeD)

lemma stem_parse_no_sep: "CHR ''/'' \<notin> set (stem (parse_path s))"
  using stem_subset [of "parse_path s"] name_parse_no_sep [of s] by blast


lemma parse_path_plain:
  "n \<noteq> [] \<Longrightarrow> CHR ''/'' \<notin> set n \<Longrightarrow> n \<noteq> ''.'' \<Longrightarrow> parse_path n = Path [] [n]"
  by (cases n) (auto simp: parse_path_def splitroot_def split_sep_plain)

lemma join_sep_snoc: "join_sep (xs @ [k]) = (if xs = [] then k else join_sep xs @ ''/'' @ k)"
  by (induction xs rule: join_sep.induct) auto

lemmas path_defs = truediv_def parse_path_def splitroot_def name_def suffix_def stem_def
  rfind_dot_def sibling_def str_path_def os_path_join_def

lemma str_under_dir:
  assumes "plain_name k" and "plain_name n"
  shows "str_path (truediv (truediv b k) n) = str_path (truediv b k) @ ''/'' @ n"
proof -
  have k: "parse_path k = Path [] [k]" and n: "parse_path n = Path [] [n]"
    using assms by (simp_all add: plain_name_def parse_path_plain)
  have "k \<noteq> []" using assms by (simp add: plain_name_def)
  then have ne: "join_sep (parts b @ [k]) \<noteq> []"
    by (simp add: join_sep_snoc)
  have "join_sep (parts b @ [k, n]) = join_sep (parts b @ [k]) @ ''/'' @ n"
    using join_sep_snoc [of "parts b @ [k]" n] by simp
  with ne show ?thesis
    by (simp add: truediv_def k n str_path_def Let_def)
qed

lemma sound_name_plain: "plain_name (stem (parse_path s) @ ''_sound.wav'')"
  using stem_parse_no_sep [of s] by (simp add: plain_name_def)

lemma plain_Downloads: "plain_name ''Downloads''"
  by (simp add: plain_name_def)











lemma with_name_sound:
  "with_name env (parse_path s) (stem (parse_path s) @ ''_sound.wav'') =
     (if name (parse_path s) = []
      then Inl (Exception (repr_path env (parse_path s) @ '' has an empty name''))
      else Inr (sibling (parse_path s) (stem (parse_path s) @ ''_sound.wav'')))"
proof -
  have "parse_path (stem (parse_path s) @ ''_sound.wav'') =
          Path [] [stem (parse_path s) @ ''_sound.wav'']"
    using sound_name_plain [of s] by (simp add: plain_name_def parse_path_plain)
  then show ?thesis by (simp add: with_name_def)
qed

section \<open>Facts about the stages\<close>

lemma download_audio_calls:
  "download_audio env u n st = (r, st1) \<Longrightarrow> calls st1 = calls st @ [Invoked_download_audio u n]"
  by (auto simp: download_audio_def Let_def split: sum.splits prod.splits)

lemma separate_audio_calls:
  "separate_audio env p st = (r, st1) \<Longrightarrow> calls st1 = calls st @ [Invoked_separate_audio p]"
  by (auto simp: separate_audio_def Let_def split: sum.splits prod.splits option.splits)



lemma separate_audio_raises:
  "separate_audio env p st = (Inl (HTTPException c d), st1) \<Longrightarrow>
     c = 500 \<and> (\<exists>m. d = ''Separation failed: '' @ m)"
  by (auto simp: separate_audio_def Let_def mkdir_exist_ok_def
           split: sum.splits prod.splits option.splits if_splits)




section \<open>The sample world, evaluated\<close>

lemma demo_dirs:
  "BASE_DIR env = Path ''/'' [''srv'', ''app''] \<Longrightarrow>
     DOWNLOAD_DIR env = Path ''/'' [''srv'', ''app'', ''Downloads'']
     \<and> OUTPUT_DIR env = Path ''/'' [''srv'', ''app'', ''output'']"
  by (simp add: DOWNLOAD_DIR_def OUTPUT_DIR_def truediv_def parse_path_def splitroot_def)

lemma demo_tmpl:
  "with_suffix_empty env (truediv (Path ''/'' [''srv'', ''app'', ''Downloads'']) ''song1'') =
     Inr (Path ''/'' [''srv'', ''app'', ''Downloads'', ''song1''])"
  by (simp add: with_suffix_empty_def path_defs)

lemma demo_download_audio:
  "BASE_DIR env = Path ''/'' [''srv'', ''app''] \<Longrightarrow> ydl_download env = demo_download \<Longrightarrow>
   download_audio env u ''song1'' st =
     (Inr ''/srv/app/Downloads/song1.mp3'',
      st\<lparr>calls := calls st @ [Invoked_download_audio u ''song1''],
         files := (files st)(''/srv/app/Downloads/song1.mp3'' \<mapsto> ''mp3 audio'')\<rparr>)"
  using demo_dirs [of env] demo_tmpl [of env]
  by (simp add: download_audio_def demo_download_def download_opts_def Let_def path_defs)

lemma demo_song_stem: "stem (parse_path ''/srv/app/Downloads/song1.mp3'') = ''song1''"
  by (simp add: path_defs)





section \<open>The process endpoint\<close>

text \<open>
  Claim C1. A request to the process endpoint whose \<open>file_type\<close> is not one of the
  accepted values (\<^verbatim>\<open>vocals\<close>, \<^verbatim>\<open>music\<close>) is answered with status 400 and a validation
  message in the \<^verbatim>\<open>error\<close> field, and \<open>download_audio\<close> is not invoked: the log and the
  files are as they were.
\<close>

theorem process_audio_rejects_file_type:
  assumes "file_type \<notin> {''vocals'', ''music''}"
  shows "process_audio env youtube_url file_name file_type st =
           (JSONResponse 400
              [(''error'', ''file_type must be 'vocals' or 'music'' @ [CHR 0x27])], st)
         \<and> http_response (files st)
             (Inr (fst (process_audio env youtube_url file_name file_type st))) =
           (400, Json [(''error'', ''file_type must be 'vocals' or 'music'' @ [CHR 0x27])])
         \<and> calls (snd (process_audio env youtube_url file_name file_type st)) = calls st
         \<and> files (snd (process_audio env youtube_url file_name file_type st)) = files st"
  using assms by (simp add: process_audio_def http_response_def)

theorem process_audio_rejects_file_type_witness:
  "''accompaniment'' \<notin> {''vocals'', ''music''}
   \<and> process_audio demo_env ''https://video.example/watch?id=abc'' ''song1''
         ''accompaniment'' empty_state =
       (JSONResponse 400
          [(''error'', ''file_type must be 'vocals' or 'music'' @ [CHR 0x27])], empty_state)
   \<and> calls (snd (process_audio demo_env ''https://video.example/watch?id=abc'' ''song1''
         ''accompaniment'' empty_state)) = []"
proof -
  have h: "''accompaniment'' \<notin> {''vocals'', ''music''}" by simp
  show ?thesis
    using h process_audio_rejects_file_type
      [OF h, of demo_env "''https://video.example/watch?id=abc''" "''song1''" empty_state]
    by (simp add: empty_state_def)
qed





text \<open>
  Claim C4. When the separation stage of a process request fails, that is, when
  \<open>separate_audio\<close> raises, the endpoint answers with status 500 and the message of the
  error in the \<^verbatim>\<open>error\<close> field (\<^verbatim>\<open>Separation failed: ...\<close> when the separator raised), and
  \<open>keep_only_sound\<close> is never invoked: the stages entered are \<open>download_audio\<close> and
  \<open>separate_audio\<close>.
\<close>

theorem separation_failure_is_500:
  assumes "file_type \<in> {''vocals'', ''music''}"
    and "download_audio env youtube_url file_name st = (Inr file_path, st1)"
    and "separate_audio env file_path st1 = (Inl e, st2)"
  shows "process_audio env youtube_url file_name file_type st =
           (JSONResponse 500 [(''error'', detail_of e)], st2)
         \<and> http_response (files st2)
              (Inr (fst (process_audio env youtube_url file_name file_type st))) =
           (500, Json [(''error'', detail_of e)])
         \<and> calls (snd (process_audio env youtube_url file_name file_type st)) =
             calls st @ [Invoked_download_audio youtube_url file_name,
                         Invoked_separate_audio file_path]
         \<and> (\<forall>c d. e = HTTPException c d \<longrightarrow> (\<exists>m. d = ''Separation failed: '' @ m))"
proof -
  have c1: "calls st1 = calls st @ [Invoked_download_audio youtube_url file_name]"
    using assms(2) by (rule download_audio_calls)
  have c2: "calls st2 = calls st1 @ [Invoked_separate_audio file_path]"
    using assms(3) by (rule separate_audio_calls)
  have r: "process_audio env youtube_url file_name file_type st =
           (JSONResponse 500 [(''error'', detail_of e)], st2)"
  proof (cases e)
    case (HTTPException c d)
    with assms(3) have "c = 500" by (auto dest: separate_audio_raises)
    with HTTPException assms show ?thesis
      by (simp add: process_audio_def process_body_def detail_of_def)
  next
    case (Exception m)
    with assms show ?thesis
      by (simp add: process_audio_def process_body_def detail_of_def)
  qed
  have m: "\<forall>c d. e = HTTPException c d \<longrightarrow> (\<exists>m. d = ''Separation failed: '' @ m)"
    using assms(3) by (auto dest: separate_audio_raises)
  show ?thesis using r c1 c2 m by (simp add: http_response_def)
qed

theorem separation_failure_is_500_witness:
  "''music'' \<in> {''vocals'', ''music''}
   \<and> download_audio (demo_env\<lparr>separate_to_file := corrupt_separate\<rparr>)
        ''https://video.example/watch?id=abc'' ''song1'' empty_state =
      (Inr ''/srv/app/Downloads/song1.mp3'',
       \<lparr>files = [''/srv/app/Downloads/song1.mp3'' \<mapsto> ''mp3 audio''],
        calls = [Invoked_download_audio ''https://video.example/watch?id=abc'' ''song1'']\<rparr>)
   \<and> separate_audio (demo_env\<lparr>separate_to_file := corrupt_separate\<rparr>)
        ''/srv/app/Downloads/song1.mp3''
        \<lparr>files = [''/srv/app/Downloads/song1.mp3'' \<mapsto> ''mp3 audio''],
         calls = [Invoked_download_audio ''https://video.example/watch?id=abc'' ''song1'']\<rparr> =
      (Inl (HTTPException 500 ''Separation failed: ffprobe error: invalid data''),
       \<lparr>files = [''/srv/app/Downloads/song1.mp3'' \<mapsto> ''mp3 audio''],
        calls = [Invoked_download_audio ''https://video.example/watch?id=abc'' ''song1'',
                 Invoked_separate_audio ''/srv/app/Downloads/song1.mp3'']\<rparr>)
   \<and> process_audio (demo_env\<lparr>separate_to_file := corrupt_separate\<rparr>)
        ''https://video.example/watch?id=abc'' ''song1'' ''music'' empty_state =
      (JSONResponse 500 [(''error'', ''Separation failed: ffprobe error: invalid data'')],
       \<lparr>files = [''/srv/app/Downloads/song1.mp3'' \<mapsto> ''mp3 audio''],
        calls = [Invoked_download_audio ''https://video.example/watch?id=abc'' ''song1'',
                 Invoked_separate_audio ''/srv/app/Downloads/song1.mp3'']\<rparr>)"
proof -
  let ?env = "demo_env\<lparr>separate_to_file := corrupt_separate\<rparr>"
  let ?st1 = "\<lparr>files = [''/srv/app/Downloads/song1.mp3'' \<mapsto> ''mp3 audio''],
        calls = [Invoked_download_audio ''https://video.example/watch?id=abc'' ''song1'']\<rparr>"
  have h1: "''music'' \<in> {''vocals'', ''music''}" by simp
  have h2: "download_audio ?env ''https://video.example/watch?id=abc'' ''song1'' empty_state =
      (Inr ''/srv/app/Downloads/song1.mp3'', ?st1)"
    using demo_download_audio [of ?env "''https://video.example/watch?id=abc''" empty_state]
    by (simp add: demo_env_def empty_state_def)
  have h3: "separate_audio ?env ''/srv/app/Downloads/song1.mp3'' ?st1 =
      (Inl (HTTPException 500 ''Separation failed: ffprobe error: invalid data''),
       ?st1\<lparr>calls := calls ?st1 @ [Invoked_separate_audio ''/srv/app/Downloads/song1.mp3'']\<rparr>)"
    using demo_dirs [of ?env] demo_song_stem
    by (simp add: separate_audio_def mkdir_exist_ok_def corrupt_separate_def demo_env_def
        truediv_def parse_path_def splitroot_def str_path_def)
  show ?thesis
    using h1 h2 h3 separation_failure_is_500 [OF h1 h2 h3]
    by (simp add: detail_of_def)
qed

section \<open>The silence trimmer\<close>




text \<open>
  Claim C8, as stated, fails for the empty input path: \<^verbatim>\<open>Path('')\<close> has no name, and
  \<open>keep_only_sound\<close> raises ValueError before any process is run.
\<close>

theorem keep_only_sound_raises_on_empty_path:
  "keep_only_sound demo_env [] empty_state =
     (Inl (Exception (''PosixPath('' @ [CHR 0x27] @ ''.'' @ [CHR 0x27] @ '') has an empty name'')),
      \<lparr>files = (\<lambda>p. None), calls = [Invoked_keep_only_sound []]\<rparr>)"
  by (simp add: keep_only_sound_def with_name_def repr_path_def demo_env_def quote_repr_def
      empty_state_def path_defs)

text \<open>
  Claim C8, amended. For every input path with a non-empty final component, whenever the
  filter process is started and exits, \<open>keep_only_sound\<close> does not raise and returns the
  derived output path, whatever the exit status: the status is not inspected. The
  witness is a run whose filter exits with status 1 and writes nothing.
\<close>

theorem keep_only_sound_ignores_exit_status:
  assumes "name (parse_path input_file) \<noteq> []"
    and "subprocess_run env
           (ffmpeg_cmd input_file
              (str_path (sibling (parse_path input_file)
                 (stem (parse_path input_file) @ ''_sound.wav''))))
           (files st) = (fs, Inr rc)"
  shows "keep_only_sound env input_file st =
           (Inr (str_path (sibling (parse_path input_file)
                   (stem (parse_path input_file) @ ''_sound.wav''))),
            st\<lparr>calls := calls st @ [Invoked_keep_only_sound input_file], files := fs\<rparr>)"
  using assms by (simp add: keep_only_sound_def with_name_sound)

theorem keep_only_sound_ignores_exit_status_witness:
  "name (parse_path ''/srv/app/output/song1/vocals.wav'') \<noteq> []
   \<and> subprocess_run (demo_env\<lparr>subprocess_run := failing_run\<rparr>)
        (ffmpeg_cmd ''/srv/app/output/song1/vocals.wav''
           (str_path (sibling (parse_path ''/srv/app/output/song1/vocals.wav'')
              (stem (parse_path ''/srv/app/output/song1/vocals.wav'') @ ''_sound.wav''))))
        (files empty_state) = (files empty_state, Inr 1)
   \<and> fst (keep_only_sound (demo_env\<lparr>subprocess_run := failing_run\<rparr>)
        ''/srv/app/output/song1/vocals.wav'' empty_state) =
       Inr ''/srv/app/output/song1/vocals_sound.wav''
   \<and> files (snd (keep_only_sound (demo_env\<lparr>subprocess_run := failing_run\<rparr>)
        ''/srv/app/output/song1/vocals.wav'' empty_state))
        ''/srv/app/output/song1/vocals_sound.wav'' = None"
proof -
  let ?env = "demo_env\<lparr>subprocess_run := failing_run\<rparr>"
  let ?in = "''/srv/app/output/song1/vocals.wav''"
  have p: "parse_path ?in = Path ''/'' [''srv'', ''app'', ''output'', ''song1'', ''vocals.wav'']"
    by (simp add: parse_path_def splitroot_def)
  have st: "stem (Path ''/'' [''srv'', ''app'', ''output'', ''song1'', ''vocals.wav'']) = ''vocals''"
    by (simp add: stem_def name_def rfind_dot_def)
  have o: "str_path (sibling (parse_path ?in) (stem (parse_path ?in) @ ''_sound.wav'')) =
      ''/srv/app/output/song1/vocals_sound.wav''"
    by (simp add: p st sibling_def str_path_def)
  have h1: "name (parse_path ?in) \<noteq> []" by (simp add: p name_def)
  have h2: "subprocess_run ?env
        (ffmpeg_cmd ?in (str_path (sibling (parse_path ?in) (stem (parse_path ?in) @ ''_sound.wav''))))
        (files empty_state) = (files empty_state, Inr 1)"
    by (simp add: failing_run_def)
  show ?thesis
    using h1 h2 o keep_only_sound_ignores_exit_status [OF h1 h2]
    by (simp add: empty_state_def)
qed

section \<open>The fetcher\<close>

text \<open>
  Claim C9. Whenever the downloader invocation does not raise, \<open>download_audio\<close> returns
  the string of \<^verbatim>\<open>DOWNLOAD_DIR / file_name\<close> followed by \<^verbatim>\<open>.mp3\<close> (for a plain name, the
  download directory, a slash, the name and \<^verbatim>\<open>.mp3\<close>), whatever files the downloader
  left: nothing is looked up in the file store. The downloader runs with \<^verbatim>\<open>ignoreerrors\<close>
  set, so it may return without raising and without writing; the witness is such a run,
  where the returned path names no file.
\<close>

theorem download_audio_returns_unchecked_path:
  assumes "with_suffix_empty env (truediv (DOWNLOAD_DIR env) file_name) = Inr tmpl"
    and "ydl_download env (download_opts (str_path tmpl)) [youtube_url] (files st) = (fs, Inr rc)"
  shows "download_audio env youtube_url file_name st =
           (Inr (str_path (truediv (DOWNLOAD_DIR env) file_name) @ ''.mp3''),
            st\<lparr>calls := calls st @ [Invoked_download_audio youtube_url file_name],
               files := fs\<rparr>)
         \<and> (plain_name file_name \<longrightarrow>
              str_path (truediv (DOWNLOAD_DIR env) file_name) @ ''.mp3'' =
              str_path (DOWNLOAD_DIR env) @ ''/'' @ file_name @ ''.mp3'')
         \<and> ignoreerrors (download_opts (str_path tmpl))"
  using assms str_under_dir [OF plain_Downloads, of file_name "BASE_DIR env"]
  by (simp add: download_audio_def Let_def DOWNLOAD_DIR_def download_opts_def)

theorem download_audio_returns_unchecked_path_witness:
  "with_suffix_empty (demo_env\<lparr>ydl_download := silent_download\<rparr>)
        (truediv (DOWNLOAD_DIR (demo_env\<lparr>ydl_download := silent_download\<rparr>)) ''song1'') =
      Inr (Path ''/'' [''srv'', ''app'', ''Downloads'', ''song1''])
   \<and> ydl_download (demo_env\<lparr>ydl_download := silent_download\<rparr>)
        (download_opts (str_path (Path ''/'' [''srv'', ''app'', ''Downloads'', ''song1'']))) [''https://video.example/gone'']
        (files empty_state) = (files empty_state, Inr 1)
   \<and> plain_name ''song1''
   \<and> fst (download_audio (demo_env\<lparr>ydl_download := silent_download\<rparr>) ''https://video.example/gone'' ''song1'' empty_state) =
       Inr ''/srv/app/Downloads/song1.mp3''
   \<and> files (snd (download_audio (demo_env\<lparr>ydl_download := silent_download\<rparr>) ''https://video.example/gone'' ''song1'' empty_state))
        ''/srv/app/Downloads/song1.mp3'' = None"
proof -
  let ?env = "demo_env\<lparr>ydl_download := silent_download\<rparr>"
  have h1: "with_suffix_empty ?env (truediv (DOWNLOAD_DIR ?env) ''song1'') =
      Inr (Path ''/'' [''srv'', ''app'', ''Downloads'', ''song1''])"
    using demo_dirs [of ?env] demo_tmpl [of ?env] by (simp add: demo_env_def)
  have h2: "ydl_download ?env
        (download_opts (str_path (Path ''/'' [''srv'', ''app'', ''Downloads'', ''song1''])))
        [''https://video.example/gone''] (files empty_state) = (files empty_state, Inr 1)"
    by (simp add: silent_download_def)
  have h3: "plain_name ''song1''" by (simp add: plain_name_def)
  have d: "str_path (DOWNLOAD_DIR ?env) = ''/srv/app/Downloads''"
    using demo_dirs [of ?env] by (simp add: demo_env_def str_path_def)
  show ?thesis
    using h1 h2 h3 d download_audio_returns_unchecked_path [OF h1 h2]
    by (simp add: empty_state_def)
qed

section \<open>The file endpoint\<close>


text \<open>
  Claim C10. The reference is not restricted: for every string \<open>v\<close> at which a file
  exists, \<open>get_file\<close> returns a file response for \<open>v\<close> itself, sent as the bytes of that
  file with media type \<^verbatim>\<open>audio/wav\<close>. The witness is a file outside the output directory.
\<close>

theorem get_file_serves_any_path:
  assumes "files st v = Some b"
  shows "get_file v st = Inr (FileResponse v ''audio/wav'')
         \<and> http_response (files st) (get_file v st) = (200, FileBytes ''audio/wav'' b)"
  using assms by (simp add: get_file_def os_path_exists_def http_response_def)

theorem get_file_serves_any_path_witness:
  "files (empty_state\<lparr>files := [''/etc/passwd'' \<mapsto> ''root:x:0:0:'']\<rparr>) ''/etc/passwd'' = Some ''root:x:0:0:''
   \<and> str_path (OUTPUT_DIR demo_env) = ''/srv/app/output''
   \<and> http_response (files (empty_state\<lparr>files := [''/etc/passwd'' \<mapsto> ''root:x:0:0:'']\<rparr>))
        (get_file ''/etc/passwd'' (empty_state\<lparr>files := [''/etc/passwd'' \<mapsto> ''root:x:0:0:'']\<rparr>)) =
       (200, FileBytes ''audio/wav'' ''root:x:0:0:'')"
proof -
  let ?st = "empty_state\<lparr>files := [''/etc/passwd'' \<mapsto> ''root:x:0:0:'']\<rparr>"
  have h: "files ?st ''/etc/passwd'' = Some ''root:x:0:0:''" by simp
  have o: "str_path (OUTPUT_DIR demo_env) = ''/srv/app/output''"
    using demo_dirs [of demo_env] by (simp add: demo_env_def str_path_def)
  show ?thesis using h o get_file_serves_any_path [OF h] by (simp add: http_response_def)
qed

section \<open>Error responses\<close>




end
